theory Spec2Isabelle
  imports Complex_Main "HOL-Library.Word"
begin

section \<open>Values exchanged with the debugged process\<close>

text \<open>
  The engine (rtfraptor/engine.py) drives an Office process through a debugger library and
  reacts to three hooked functions of ole32.dll. Addresses and handles reach the handler as
  Python integers; memory comes back as byte strings. An exception of the Python code is a
  value of \<open>exn\<close>; a call that can raise returns the exception beside the state it leaves.
\<close>

type_synonym byte = "8 word"

datatype exn =
    WindowsError int
  | KeyError int
  | AttributeError string
  | TypeError string
  | OtherError string

text \<open>
  The three memory primitives of the debugger's process object that the handler calls. They
  belong to the debugger library, so the model takes them as given functions; each may raise.
\<close>

record process =
  peek_pointer :: "int \<Rightarrow> exn + int"
  peek_dword :: "int \<Rightarrow> exn + 32 word"
  read :: "int \<Rightarrow> nat \<Rightarrow> exn + byte list"

section \<open>Log records\<close>

datatype level = DEBUG | INFO | WARNING | ERROR

text \<open>The numeric severities of Python's logging module.\<close>

fun levelno :: "level \<Rightarrow> nat" where
  "levelno DEBUG = 10"
| "levelno INFO = 20"
| "levelno WARNING = 30"
| "levelno ERROR = 40"

datatype logarg = ArgStr string | ArgInt int

datatype log_record = LogRecord (lvl: level) (fmt: string) (fmt_args: "logarg list")

section \<open>The state of CustomEventHandler and of its surroundings\<close>

text \<open>
  \<open>info\<close> is the dictionary built by the data-conversion hook: keys size and sha256 from the
  start, class_id and description once the object has been classified.
\<close>

record info =
  obj_size :: nat
  obj_sha256 :: string
  class_id :: "string option"
  description :: "string option"

text \<open>The bound methods a hook can name.\<close>

datatype callback = Hook_load | Hook_data_conversion | Hook_guid_conversion

text \<open>
  One state for everything the handler touches: its attributes \<open>_last_pstg\<close> (None or
  an integer) and \<open>objects\<close>, the logger's output, the files of the working directory and
  the breakpoints registered with \<open>hook_function\<close> (pid, address, callback, number of
  arguments).
\<close>

record session =
  last_pstg :: "int option"
  objects :: "int \<rightharpoonup> info"
  logged :: "log_record list"
  files :: "string \<rightharpoonup> byte list"
  hooked :: "(nat \<times> int \<times> callback \<times> nat) list"

definition emit :: "level \<Rightarrow> string \<Rightarrow> logarg list \<Rightarrow> session \<Rightarrow> session" where
  "emit l f as s = s\<lparr>logged := logged s @ [LogRecord l f as]\<rparr>"

text \<open>Python's truth value of \<open>_last_pstg\<close> and of a resolved address: None and 0 are false.\<close>

fun truthy :: "int option \<Rightarrow> bool" where
  "truthy None = False"
| "truthy (Some v) = (v \<noteq> 0)"

section \<open>The three hooks\<close>

definition hook_load :: "int \<Rightarrow> session \<Rightarrow> exn option \<times> session" where
  "hook_load pstg s = (None, s\<lparr>last_pstg := Some pstg\<rparr>)"

text \<open>
  \<open>_hook_guid_conversion\<close>. \<open>bytes_to_clsid\<close> (rtfraptor/utils.py) and the table
  \<open>KNOWN_CLSIDS\<close> (oletools) are parameters. The 16 bytes are read before the pending
  handle is looked at; \<open>self.objects[self._last_pstg]\<close> raises KeyError on a missing key.
\<close>

definition hook_guid_conversion ::
  "(byte list \<Rightarrow> string) \<Rightarrow> (string \<rightharpoonup> string) \<Rightarrow> process \<Rightarrow> int \<Rightarrow> session
     \<Rightarrow> exn option \<times> session" where
  "hook_guid_conversion bytes_to_clsid known_clsids proc clsid_old s =
     (case read proc clsid_old 16 of
        Inl e \<Rightarrow> (Some e, s)
      | Inr clsid_bytes \<Rightarrow>
          (let clsid = bytes_to_clsid clsid_bytes in
           if truthy (last_pstg s) then
             (case last_pstg s of
                None \<Rightarrow> (None, s)
              | Some k \<Rightarrow>
                  (case objects s k of
                     None \<Rightarrow> (Some (KeyError k), s)
                   | Some info0 \<Rightarrow>
                       (let info1 = info0\<lparr>class_id := Some clsid\<rparr> in
                        case known_clsids clsid of
                          Some d \<Rightarrow>
                            (let s1 = emit WARNING ''Suspicious OLE object loaded, class id %s (%s)''
                                        [ArgStr clsid, ArgStr d] s;
                                 s2 = emit WARNING ''Object size is %d, SHA256 is %s''
                                        [ArgInt (int (obj_size info1)), ArgStr (obj_sha256 info1)] s1;
                                 info2 = info1\<lparr>description := Some d\<rparr>
                             in (None, s2\<lparr>objects := (objects s2)(k \<mapsto> info2), last_pstg := None\<rparr>))
                        | None \<Rightarrow>
                            (let s1 = emit WARNING ''Object found but not on blacklist %s''
                                        [ArgStr clsid] s;
                                 info2 = info1\<lparr>description := Some ''Unknown (not blacklisted)''\<rparr>
                             in (None, s1\<lparr>objects := (objects s1)(k \<mapsto> info2), last_pstg := None\<rparr>)))))
           else (None, s)))"

text \<open>
  \<open>_hook_data_conversion\<close>. \<open>sha256\<close> stands for hashlib's SHA-256 hex digest. The inner
  \<open>peek_pointer\<close> runs first, then the outer one, then \<open>peek_dword\<close>, then \<open>read\<close>;
  nothing is written before the last of them has returned. The working directory is taken
  to accept the file: \<open>open\<close> and \<open>write\<close> do not raise here.
\<close>

definition hook_data_conversion ::
  "(byte list \<Rightarrow> string) \<Rightarrow> process \<Rightarrow> int \<Rightarrow> int \<Rightarrow> session \<Rightarrow> exn option \<times> session" where
  "hook_data_conversion sha256 proc lpolestream pstg s =
     (case peek_pointer proc (lpolestream + 8) of
        Inl e \<Rightarrow> (Some e, s)
      | Inr p \<Rightarrow>
     (case peek_pointer proc p of
        Inl e \<Rightarrow> (Some e, s)
      | Inr data_addr \<Rightarrow>
     (case peek_dword proc (lpolestream + 12) of
        Inl e \<Rightarrow> (Some e, s)
      | Inr dw \<Rightarrow>
     (case read proc data_addr (unat dw) of
        Inl e \<Rightarrow> (Some e, s)
      | Inr data \<Rightarrow>
          (let inf = \<lparr>obj_size = unat dw, obj_sha256 = sha256 data,
                      class_id = None, description = None\<rparr>;
               s1 = s\<lparr>files := (files s)(obj_sha256 inf \<mapsto> data)\<rparr>;
               s2 = s1\<lparr>objects := (objects s1)(pstg \<mapsto> inf)\<rparr>;
               s3 = emit DEBUG ''Dumping data from 0x%08x, destination 0x%08x, length %d, hash %s''
                      [ArgInt data_addr, ArgInt pstg, ArgInt (int (obj_size inf)),
                       ArgStr (obj_sha256 inf)] s2
           in (None, s3))))))"

text \<open>
  The hook table \<open>_hooks\<close>: per module, per exported function, the number of arguments
  and the name of the method to call. The dictionaries are written as lists of items in the
  order of the source text; the order in which Python yields them is the interpreter's, and
  the loops below take the list of items as it comes.
\<close>

record options =
  args :: nat
  hook :: string

definition class_hooks :: "(string \<times> (string \<times> options) list) list" where
  "class_hooks =
     [(''ole32.dll'',
       [(''OleLoad'', \<lparr>args = 4, hook = ''_hook_load''\<rparr>),
        (''OleConvertOLESTREAMToIStorage'', \<lparr>args = 3, hook = ''_hook_data_conversion''\<rparr>),
        (''OleGetAutoConvert'', \<lparr>args = 2, hook = ''_hook_guid_conversion''\<rparr>)])]"

text \<open>The module of a load event, as far as the handler asks it.\<close>

record module =
  get_name :: string
  match_name :: "string \<Rightarrow> bool"
  resolve :: "string \<Rightarrow> int option"

text \<open>\<open>getattr(self, name)\<close> for the methods of the class; any other name raises.\<close>

definition getattr_hook :: "string \<Rightarrow> callback option" where
  "getattr_hook name =
     (if name = ''_hook_load'' then Some Hook_load
      else if name = ''_hook_data_conversion'' then Some Hook_data_conversion
      else if name = ''_hook_guid_conversion'' then Some Hook_guid_conversion
      else None)"

text \<open>
  \<open>_apply_hooks\<close>: the loop over \<open>hooks.items()\<close>, in whatever order the dictionary
  yields them. The first function that does not resolve ends the loop with False.
\<close>

fun apply_hooks ::
  "module \<Rightarrow> nat \<Rightarrow> (string \<times> options) list \<Rightarrow> session \<Rightarrow> (exn + bool) \<times> session" where
  "apply_hooks m pid [] s = (Inr True, s)"
| "apply_hooks m pid ((func, opts) # rest) s =
     (if truthy (resolve m func) then
        (case resolve m func of
           None \<Rightarrow> (Inr False, s)
         | Some address \<Rightarrow>
             (let s1 = emit DEBUG ''Address of %s is 0x%08x'' [ArgStr func, ArgInt address] s in
              case getattr_hook (hook opts) of
                None \<Rightarrow> (Inl (AttributeError (hook opts)), s1)
              | Some cb \<Rightarrow>
                  apply_hooks m pid rest
                    (s1\<lparr>hooked := hooked s1 @ [(pid, address, cb, args opts)]\<rparr>)))
      else (Inr False, emit ERROR ''Could not find function %s to hook'' [ArgStr func] s))"

text \<open>
  \<open>load_dll\<close>: the loop over \<open>self._hooks.items()\<close>. The value returned by
  \<open>_apply_hooks\<close> is dropped; only an exception ends the loop early.
\<close>

fun load_dll_items ::
  "module \<Rightarrow> nat \<Rightarrow> (string \<times> (string \<times> options) list) list \<Rightarrow> session
     \<Rightarrow> exn option \<times> session" where
  "load_dll_items m pid [] s = (None, s)"
| "load_dll_items m pid ((dll, hooks) # rest) s =
     (if match_name m dll then
        (let s1 = emit DEBUG ''Process loaded %s, hooks exist for this module''
                    [ArgStr (get_name m)] s in
         case apply_hooks m pid hooks s1 of
           (Inl e, s2) \<Rightarrow> (Some e, s2)
         | (Inr ok, s2) \<Rightarrow> load_dll_items m pid rest s2)
      else load_dll_items m pid rest s)"

definition load_dll :: "module \<Rightarrow> nat \<Rightarrow> session \<Rightarrow> exn option \<times> session" where
  "load_dll m pid s = load_dll_items m pid class_hooks s"

section \<open>Events reaching the handler\<close>

text \<open>
  The debugger library calls \<open>load_dll\<close> for a module load and the registered callback,
  with the captured arguments, for a breakpoint at a hooked address. A callback called with
  the wrong number of arguments raises TypeError.
\<close>

datatype event =
    Load_dll module nat
  | Breakpoint callback process "int list"
  | Other_event

fun run_callback ::
  "(byte list \<Rightarrow> string) \<Rightarrow> (byte list \<Rightarrow> string) \<Rightarrow> (string \<rightharpoonup> string)
     \<Rightarrow> callback \<Rightarrow> process \<Rightarrow> int list \<Rightarrow> session \<Rightarrow> exn option \<times> session" where
  "run_callback sha256 bytes_to_clsid known_clsids Hook_load proc
       [pstg, riid, pclientsite, ppvobjx] s = hook_load pstg s"
| "run_callback sha256 bytes_to_clsid known_clsids Hook_data_conversion proc
       [lpolestream, pstg, ptd] s = hook_data_conversion sha256 proc lpolestream pstg s"
| "run_callback sha256 bytes_to_clsid known_clsids Hook_guid_conversion proc
       [clsid_old, pclsid_new] s =
       hook_guid_conversion bytes_to_clsid known_clsids proc clsid_old s"
| "run_callback sha256 bytes_to_clsid known_clsids cb proc as s =
       (Some (TypeError ''wrong number of arguments''), s)"

fun handle_event ::
  "(byte list \<Rightarrow> string) \<Rightarrow> (byte list \<Rightarrow> string) \<Rightarrow> (string \<rightharpoonup> string)
     \<Rightarrow> event \<Rightarrow> session \<Rightarrow> exn option \<times> session" where
  "handle_event sha256 bytes_to_clsid known_clsids (Load_dll m pid) s = load_dll m pid s"
| "handle_event sha256 bytes_to_clsid known_clsids (Breakpoint cb proc as) s =
     run_callback sha256 bytes_to_clsid known_clsids cb proc as s"
| "handle_event sha256 bytes_to_clsid known_clsids Other_event s = (None, s)"

section \<open>The orchestrator\<close>

text \<open>The two Win32 codes that \<open>office_debugger\<close> treats as "no event yet".\<close>

definition ERROR_SEM_TIMEOUT :: int where "ERROR_SEM_TIMEOUT = 121"
definition WAIT_TIMEOUT :: int where "WAIT_TIMEOUT = 258"

fun is_timeout :: "exn \<Rightarrow> bool" where
  "is_timeout (WindowsError w) = (w = ERROR_SEM_TIMEOUT \<or> w = WAIT_TIMEOUT)"
| "is_timeout e = False"

text \<open>The calls made on the debugger, in order.\<close>

datatype call =
    Call_enter bool
  | Call_set_kill_on_exit_mode bool
  | Call_execv "string list"
  | Call_wait nat
  | Call_dispatch
  | Call_cont
  | Call_stop
  | Call_exit

text \<open>
  What the surroundings answer in one pass of the while loop: the number of debuggees, the
  clock, and what \<open>debug.wait\<close> does (an event is there, or it raises).
\<close>

datatype 'ev waited = Event 'ev | Wait_raises exn

record 'ev tick =
  debugee_count :: int
  now :: real
  wait_result :: "'ev waited"

text \<open>
  The while loop of \<open>office_debugger\<close>, one tick per pass. \<open>dispatch\<close> is the debugger's
  dispatch of the event just received; it may raise. The result is the exception leaving
  the loop if there is one, the state, and the calls made. The loop has not ended when the
  ticks run out: then there is no result.
\<close>

fun event_loop ::
  "('ev \<Rightarrow> session \<Rightarrow> exn option \<times> session) \<Rightarrow> real \<Rightarrow> 'ev tick list \<Rightarrow> session
     \<Rightarrow> (exn option \<times> session \<times> call list) option" where
  "event_loop dispatch max_time [] s = None"
| "event_loop dispatch max_time (t # ts) s =
     (if debugee_count t > 0 \<and> now t < max_time then
        (case wait_result t of
           Wait_raises e \<Rightarrow>
             (if is_timeout e then
                (case event_loop dispatch max_time ts s of
                   None \<Rightarrow> None
                 | Some (r, s', cs) \<Rightarrow> Some (r, s', Call_wait 1000 # cs))
              else Some (Some e, s, [Call_wait 1000]))
         | Event ev \<Rightarrow>
             (case dispatch ev s of
                (Some e, s1) \<Rightarrow> Some (Some e, s1, [Call_wait 1000, Call_dispatch, Call_cont])
              | (None, s1) \<Rightarrow>
                  (case event_loop dispatch max_time ts s1 of
                     None \<Rightarrow> None
                   | Some (r, s', cs) \<Rightarrow>
                       Some (r, s', [Call_wait 1000, Call_dispatch, Call_cont] @ cs))))
      else Some (None, s, []))"

text \<open>
  What a caller of \<open>office_debugger\<close> gets: a Python value or an exception. The function
  has no return statement, so the value is always None.
\<close>

datatype pyvalue = PyNone | PyObjects "int \<rightharpoonup> info"

datatype result = Returns pyvalue | Raises exn

record 'ev surroundings =
  start_time :: real
  execv_raises :: "exn option"
  ticks :: "'ev tick list"

text \<open>
  \<open>office_debugger\<close>. The handler and the debugger are created fresh (no pending handle, no objects, no
  breakpoints); the
  deadline is the clock plus the timeout; a WindowsError of \<open>execv\<close> is logged and the loop
  is entered all the same; \<open>debug.stop()\<close> runs in the finally clause and the with
  statement leaves the debugger. \<open>save_objs\<close> is accepted and not used.
\<close>

definition office_debugger ::
  "('ev \<Rightarrow> session \<Rightarrow> exn option \<times> session) \<Rightarrow> string \<Rightarrow> string \<Rightarrow> real \<Rightarrow> bool
     \<Rightarrow> 'ev surroundings \<Rightarrow> session \<Rightarrow> (result \<times> session \<times> call list) option" where
  "office_debugger dispatch executable target_file timeout save_objs env w =
     (let opts = [executable, target_file];
          s0 = w\<lparr>last_pstg := None, objects := Map.empty, hooked := []\<rparr>;
          cs0 = [Call_enter True, Call_set_kill_on_exit_mode True];
          max_time = start_time env + timeout;
          cs1 = cs0 @ [Call_execv opts]
      in case execv_raises env of
           Some (WindowsError c) \<Rightarrow>
             (let s1 = emit ERROR ''Could not run Office application, check it is 32-bit'' [] s0 in
              case event_loop dispatch max_time (ticks env) s1 of
                None \<Rightarrow> None
              | Some (None, s2, cs) \<Rightarrow> Some (Returns PyNone, s2, cs1 @ cs @ [Call_stop, Call_exit])
              | Some (Some e, s2, cs) \<Rightarrow> Some (Raises e, s2, cs1 @ cs @ [Call_stop, Call_exit]))
         | Some e \<Rightarrow> Some (Raises e, s0, cs1 @ [Call_exit])
         | None \<Rightarrow>
             (case event_loop dispatch max_time (ticks env) s0 of
                None \<Rightarrow> None
              | Some (None, s2, cs) \<Rightarrow> Some (Returns PyNone, s2, cs1 @ cs @ [Call_stop, Call_exit])
              | Some (Some e, s2, cs) \<Rightarrow> Some (Raises e, s2, cs1 @ cs @ [Call_stop, Call_exit])))"

section \<open>Sample inputs\<close>

text \<open>
  A target whose stream structure at 1000 points, through 2000, to a 42-byte buffer at
  3000, and that holds a 16-byte class identifier at 500. Every other access fails with
  ERROR_PARTIAL_COPY.
\<close>

definition sample_process :: process where
  "sample_process =
     \<lparr>peek_pointer = (\<lambda>a. if a = 1008 then Inr 2000 else if a = 2000 then Inr 3000
                           else Inl (WindowsError 299)),
      peek_dword = (\<lambda>a. if a = 1012 then Inr 42 else Inl (WindowsError 299)),
      read = (\<lambda>a n. if a = 3000 \<and> n = 42 then Inr (replicate 42 65)
                     else if a = 500 \<and> n = 16 then Inr (replicate 16 0)
                     else Inl (WindowsError 299))\<rparr>"

definition sample_digest :: "byte list \<Rightarrow> string" where
  "sample_digest bs = (if bs = replicate 42 65 then ''digest-of-the-buffer'' else ''other-digest'')"

definition sample_clsid :: "byte list \<Rightarrow> string" where
  "sample_clsid bs = (if bs = replicate 16 0 then ''00000000-0000-0000-0000-000000000000'' else ''other'')"

definition sample_known :: "string \<rightharpoonup> string" where
  "sample_known = [''00000000-0000-0000-0000-000000000000'' \<mapsto> ''Sample entry'']"

definition no_session :: session where
  "no_session = \<lparr>last_pstg = None, objects = Map.empty, logged = [], files = Map.empty, hooked = []\<rparr>"



text \<open>
  The sample target with a data buffer that cannot be read.
\<close>

definition faulty_process :: process where
  "faulty_process = sample_process\<lparr>read := (\<lambda>a n. Inl (WindowsError 299))\<rparr>"

text \<open>
  The state after a data-conversion call for handle 7 and an object-load call for it.
\<close>

definition tracked_session :: session where
  "tracked_session =
     \<lparr>last_pstg = Some 7,
      objects = [7 \<mapsto> \<lparr>obj_size = 42, obj_sha256 = ''digest-of-the-buffer'',
                        class_id = None, description = None\<rparr>],
      logged = [], files = [''digest-of-the-buffer'' \<mapsto> replicate 42 65], hooked = []\<rparr>"

text \<open>
  Runs of the orchestrator: one data-conversion call and then the target exits; waits that
  time out until the deadline of 10 seconds has passed; a data-conversion call followed by
  such waits; a single event; a dispatch that raises.
\<close>

definition sample_run :: "event surroundings" where
  "sample_run =
     \<lparr>start_time = 0, execv_raises = None,
      ticks =
        [\<lparr>debugee_count = 1, now = 1,
          wait_result = Event (Breakpoint Hook_data_conversion sample_process [1000, 7, 0])\<rparr>,
         \<lparr>debugee_count = 0, now = 2, wait_result = Wait_raises (WindowsError 121)\<rparr>]\<rparr>"





section \<open>Properties of call traces\<close>


section \<open>The stream extractor\<close>

text \<open>
  C1. On a data-conversion call with stream structure s and destination handle p whose
  reads succeed: the pointer at s + 8 is read and dereferenced once more, the 4-byte length
  at s + 12 is read, that many bytes are requested at the resulting address, and the bytes
  returned are hashed, stored in a file named by the hex digest, and recorded under p with
  the length and the digest. Nothing else changes but the log.
\<close>

theorem data_conversion_extracts:
  assumes "peek_pointer proc (lpolestream + 8) = Inr p"
    and "peek_pointer proc p = Inr data_addr"
    and "peek_dword proc (lpolestream + 12) = Inr dw"
    and "read proc data_addr (unat dw) = Inr data"
  shows "hook_data_conversion sha256 proc lpolestream pstg s =
           (None, s\<lparr>files := (files s)(sha256 data \<mapsto> data),
                    objects := (objects s)(pstg \<mapsto>
                       \<lparr>obj_size = unat dw, obj_sha256 = sha256 data,
                        class_id = None, description = None\<rparr>),
                    logged := logged s @
                       [LogRecord DEBUG
                          ''Dumping data from 0x%08x, destination 0x%08x, length %d, hash %s''
                          [ArgInt data_addr, ArgInt pstg, ArgInt (int (unat dw)),
                           ArgStr (sha256 data)]]\<rparr>)"
  using assms by (simp add: hook_data_conversion_def emit_def Let_def)

theorem data_conversion_extracts_witness:
  "peek_pointer sample_process (1000 + 8) = Inr 2000
   \<and> peek_pointer sample_process 2000 = Inr 3000
   \<and> peek_dword sample_process (1000 + 12) = Inr 42
   \<and> read sample_process 3000 (unat (42 :: 32 word)) = Inr (replicate 42 65)
   \<and> files (snd (hook_data_conversion sample_digest sample_process 1000 7 no_session))
       ''digest-of-the-buffer'' = Some (replicate 42 65)
   \<and> map_option obj_size
       (objects (snd (hook_data_conversion sample_digest sample_process 1000 7 no_session)) 7)
       = Some 42"
proof -
  have a: "peek_pointer sample_process (1000 + 8) = Inr 2000"
    and b: "peek_pointer sample_process 2000 = Inr 3000"
    and c: "peek_dword sample_process (1000 + 12) = Inr 42"
    and d: "read sample_process 3000 (unat (42 :: 32 word)) = Inr (replicate 42 65)"
    by (simp_all add: sample_process_def)
  show ?thesis
    using a b c d
      data_conversion_extracts [OF a b c d, of sample_digest 7 no_session]
    by (simp add: sample_digest_def)
qed

text \<open>
  C4. A failing read is not handled in the hook. At the sample target whose buffer cannot
  be read, the WindowsError leaves \<open>_hook_data_conversion\<close>: the handler raises.
\<close>

theorem read_failure_propagates_counterexample:
  "peek_pointer faulty_process (1000 + 8) = Inr 2000
   \<and> peek_pointer faulty_process 2000 = Inr 3000
   \<and> peek_dword faulty_process (1000 + 12) = Inr 42
   \<and> read faulty_process 3000 42 = Inl (WindowsError 299)
   \<and> hook_data_conversion sample_digest faulty_process 1000 7 no_session
       = (Some (WindowsError 299), no_session)"
  by (simp add: hook_data_conversion_def faulty_process_def sample_process_def)

text \<open>
  C4, as the code has it. When one of the four reads of a data-conversion call fails, the
  exception of that read leaves the hook, and the state is the one before the call: no file
  is written and no tracked object is created or changed.
\<close>

theorem read_failure_leaves_state:
  assumes "peek_pointer proc (lpolestream + 8) = Inl e
           \<or> (\<exists>p. peek_pointer proc (lpolestream + 8) = Inr p
                \<and> (peek_pointer proc p = Inl e
                   \<or> (\<exists>data_addr. peek_pointer proc p = Inr data_addr
                        \<and> (peek_dword proc (lpolestream + 12) = Inl e
                           \<or> (\<exists>dw. peek_dword proc (lpolestream + 12) = Inr dw
                                \<and> read proc data_addr (unat dw) = Inl e)))))"
  shows "hook_data_conversion sha256 proc lpolestream pstg s = (Some e, s)"
  using assms by (auto simp add: hook_data_conversion_def)

theorem read_failure_leaves_state_witness:
  "read faulty_process 3000 (unat (42 :: 32 word)) = Inl (WindowsError 299)
   \<and> hook_data_conversion sample_digest faulty_process 1000 7 tracked_session
       = (Some (WindowsError 299), tracked_session)"
proof -
  have h: "peek_pointer faulty_process (1000 + 8) = Inl (WindowsError 299)
           \<or> (\<exists>p. peek_pointer faulty_process (1000 + 8) = Inr p
                \<and> (peek_pointer faulty_process p = Inl (WindowsError 299)
                   \<or> (\<exists>data_addr. peek_pointer faulty_process p = Inr data_addr
                        \<and> (peek_dword faulty_process (1000 + 12) = Inl (WindowsError 299)
                           \<or> (\<exists>dw. peek_dword faulty_process (1000 + 12) = Inr dw
                                \<and> read faulty_process data_addr (unat dw) = Inl (WindowsError 299))))))"
    by (simp add: faulty_process_def sample_process_def)
  show ?thesis
    using read_failure_leaves_state [OF h, of sample_digest 7 tracked_session]
    by (simp add: faulty_process_def)
qed

text \<open>
  C3. \<open>save_objs\<close> has no effect: a run with the flag False is the run with the flag
  True, and the sample run with the flag False ends with the extracted bytes in a file
  named by their digest.
\<close>

theorem save_objs_ignored:
  "office_debugger dispatch executable target_file timeout False env w =
     office_debugger dispatch executable target_file timeout True env w
   \<and> map_option (\<lambda>(r, s, cs). (r, files s ''digest-of-the-buffer''))
       (office_debugger (handle_event sample_digest sample_clsid sample_known)
          ''WINWORD.EXE'' ''sample.rtf'' 10 False sample_run no_session)
       = Some (Returns PyNone, Some (replicate 42 65))"
  by (simp add: office_debugger_def sample_run_def no_session_def sample_process_def
      hook_data_conversion_def sample_digest_def emit_def Let_def)

section \<open>The load correlator and the classifier\<close>

text \<open>
  C5. The pending slot is one attribute: an object-load call sets it to its storage handle
  whatever it held, a guid-conversion call that finds a pending handle and returns leaves
  it empty, and after any event it holds at most one handle.
\<close>

theorem pending_slot_single:
  "last_pstg (snd (hook_load pstg s)) = Some pstg
   \<and> (truthy (last_pstg s)
        \<and> hook_guid_conversion bytes_to_clsid known_clsids proc clsid_old s = (None, s')
      \<longrightarrow> last_pstg s' = None)
   \<and> card (set_option (last_pstg (snd (handle_event sha256 bytes_to_clsid known_clsids ev s)))) \<le> 1"
proof (intro conjI impI)
  show "last_pstg (snd (hook_load pstg s)) = Some pstg"
    by (simp add: hook_load_def)
next
  assume "truthy (last_pstg s)
        \<and> hook_guid_conversion bytes_to_clsid known_clsids proc clsid_old s = (None, s')"
  then show "last_pstg s' = None"
    by (auto simp add: hook_guid_conversion_def Let_def emit_def
        split: sum.splits option.splits)
next
  show "card (set_option (last_pstg (snd (handle_event sha256 bytes_to_clsid known_clsids ev s)))) \<le> 1"
    by (cases "last_pstg (snd (handle_event sha256 bytes_to_clsid known_clsids ev s))") simp_all
qed

theorem pending_slot_single_witness:
  "last_pstg (snd (hook_load 9 tracked_session)) = Some 9
   \<and> truthy (last_pstg tracked_session)
   \<and> fst (hook_guid_conversion sample_clsid sample_known sample_process 500 tracked_session) = None
   \<and> last_pstg (snd (hook_guid_conversion sample_clsid sample_known sample_process 500
                        tracked_session)) = None"
proof -
  obtain s' where r: "hook_guid_conversion sample_clsid sample_known sample_process 500
                        tracked_session = (None, s')"
    by (simp add: hook_guid_conversion_def tracked_session_def sample_process_def
        sample_clsid_def sample_known_def Let_def emit_def)
  have t: "truthy (last_pstg tracked_session)"
    by (simp add: tracked_session_def)
  from pending_slot_single [of 9 tracked_session sample_clsid sample_known sample_process 500 s']
  have "last_pstg (snd (hook_load 9 tracked_session)) = Some 9" and "last_pstg s' = None"
    using t r by simp_all
  with t r show ?thesis by simp
qed

text \<open>
  C6. The record for an identifier that is not in the table is not of lower severity than
  the records for one that is: all of them are warnings.
\<close>

theorem same_severity_counterexample:
  "map lvl (logged (snd (hook_guid_conversion sample_clsid sample_known sample_process 500
                           tracked_session))) = [WARNING, WARNING]
   \<and> map lvl (logged (snd (hook_guid_conversion sample_clsid Map.empty sample_process 500
                           tracked_session))) = [WARNING]
   \<and> \<not> levelno (lvl (last (logged (snd (hook_guid_conversion sample_clsid Map.empty
                                          sample_process 500 tracked_session)))))
        < levelno (lvl (last (logged (snd (hook_guid_conversion sample_clsid sample_known
                                             sample_process 500 tracked_session)))))"
  by (simp add: hook_guid_conversion_def tracked_session_def sample_process_def
      sample_clsid_def sample_known_def Let_def emit_def)

text \<open>
  C6, as the code has it. On a guid-conversion call with a pending handle under which an
  object is tracked: an identifier of the table gives the table's description and two
  warnings, the first with the identifier and the description, the second with the
  tracked size and digest; any other identifier gives the description
  "Unknown (not blacklisted)" and one warning with the identifier. In both cases the class
  identifier is stored and the slot is emptied.
\<close>

theorem guid_conversion_classifies:
  assumes "read proc clsid_old 16 = Inr clsid_bytes"
    and "last_pstg s = Some k"
    and "k \<noteq> 0"
    and "objects s k = Some info0"
  shows "hook_guid_conversion bytes_to_clsid known_clsids proc clsid_old s =
     (case known_clsids (bytes_to_clsid clsid_bytes) of
        Some d \<Rightarrow>
          (None,
           s\<lparr>logged := logged s @
                [LogRecord WARNING ''Suspicious OLE object loaded, class id %s (%s)''
                   [ArgStr (bytes_to_clsid clsid_bytes), ArgStr d],
                 LogRecord WARNING ''Object size is %d, SHA256 is %s''
                   [ArgInt (int (obj_size info0)), ArgStr (obj_sha256 info0)]],
              objects := (objects s)(k \<mapsto>
                info0\<lparr>class_id := Some (bytes_to_clsid clsid_bytes), description := Some d\<rparr>),
              last_pstg := None\<rparr>)
      | None \<Rightarrow>
          (None,
           s\<lparr>logged := logged s @
                [LogRecord WARNING ''Object found but not on blacklist %s''
                   [ArgStr (bytes_to_clsid clsid_bytes)]],
              objects := (objects s)(k \<mapsto>
                info0\<lparr>class_id := Some (bytes_to_clsid clsid_bytes),
                       description := Some ''Unknown (not blacklisted)''\<rparr>),
              last_pstg := None\<rparr>))"
  using assms
  by (simp add: hook_guid_conversion_def Let_def emit_def split: option.splits)

theorem guid_conversion_classifies_witness:
  "read sample_process 500 16 = Inr (replicate 16 0)
   \<and> last_pstg tracked_session = Some 7
   \<and> (7 :: int) \<noteq> 0
   \<and> map_option description
       (objects (snd (hook_guid_conversion sample_clsid sample_known sample_process 500
                        tracked_session)) 7) = Some (Some ''Sample entry'')
   \<and> map_option description
       (objects (snd (hook_guid_conversion sample_clsid Map.empty sample_process 500
                        tracked_session)) 7) = Some (Some ''Unknown (not blacklisted)'')"
proof -
  have a: "read sample_process 500 16 = Inr (replicate 16 0)"
    by (simp add: sample_process_def)
  have b: "last_pstg tracked_session = Some 7"
    and d: "objects tracked_session 7 =
             Some \<lparr>obj_size = 42, obj_sha256 = ''digest-of-the-buffer'',
                   class_id = None, description = None\<rparr>"
    by (simp_all add: tracked_session_def)
  have c: "(7 :: int) \<noteq> 0" by simp
  show ?thesis
    using a b
      guid_conversion_classifies [OF a b c d, of sample_clsid sample_known]
      guid_conversion_classifies [OF a b c d, of sample_clsid Map.empty]
    by (simp add: sample_clsid_def sample_known_def)
qed

text \<open>
  C7. With handle 7 pending and no object tracked under it (an object-load call that no
  data-conversion call preceded), the guid-conversion hook raises KeyError and the handle
  stays pending.
\<close>

theorem guid_conversion_missing_object:
  "objects (snd (hook_load 7 no_session)) 7 = None
   \<and> hook_guid_conversion sample_clsid sample_known sample_process 500
        (snd (hook_load 7 no_session))
       = (Some (KeyError 7), snd (hook_load 7 no_session))
   \<and> last_pstg (snd (hook_guid_conversion sample_clsid sample_known sample_process 500
                        (snd (hook_load 7 no_session)))) = Some 7"
  by (simp add: hook_guid_conversion_def hook_load_def no_session_def sample_process_def)

text \<open>
  C8. A guid-conversion call with no pending handle writes no log record: at the sample
  target the log is what it was.
\<close>

theorem idle_guid_conversion_silent_counterexample:
  "last_pstg no_session = None
   \<and> hook_guid_conversion sample_clsid sample_known sample_process 500 no_session
       = (None, no_session)
   \<and> logged (snd (hook_guid_conversion sample_clsid sample_known sample_process 500 no_session))
       = logged no_session"
  by (simp add: hook_guid_conversion_def no_session_def sample_process_def)

text \<open>
  C8, as the code has it. A guid-conversion call with no pending handle (None, or the
  handle 0) changes nothing, the log included; it raises exactly when the read of the 16
  identifier bytes does.
\<close>

theorem idle_guid_conversion_noop:
  assumes "\<not> truthy (last_pstg s)"
  shows "snd (hook_guid_conversion bytes_to_clsid known_clsids proc clsid_old s) = s
         \<and> fst (hook_guid_conversion bytes_to_clsid known_clsids proc clsid_old s) =
             (case read proc clsid_old 16 of Inl e \<Rightarrow> Some e | Inr clsid_bytes \<Rightarrow> None)"
  using assms
  by (simp add: hook_guid_conversion_def Let_def split: sum.splits)

theorem idle_guid_conversion_noop_witness:
  "\<not> truthy (last_pstg no_session)
   \<and> hook_guid_conversion sample_clsid sample_known sample_process 500 no_session
       = (None, no_session)"
proof -
  have h: "\<not> truthy (last_pstg no_session)"
    by (simp add: no_session_def)
  have r: "read sample_process 500 16 = Inr (replicate 16 0)"
    by (simp add: sample_process_def)
  show ?thesis
    using h idle_guid_conversion_noop [OF h, of sample_clsid sample_known sample_process 500]
    by (simp add: r prod_eq_iff)
qed

section \<open>The hook registry\<close>




section \<open>The event loop\<close>








end
